theory Spec2Isabelle
  imports Main "HOL-Library.Sublist" "HOL-Library.Word"
begin

section \<open>JavaScript values as the checks see them\<close>

text \<open>
  The context slots, the parsed stellar.toml, the decoded /info body and the payloads
  of a Result are typed \<open>any\<close> in the sources.  They hold parsed TOML or JSON
  documents, so a value is \<open>undefined\<close>, \<open>null\<close>, a boolean, a number, a string, an
  array or a plain object.  An object is the list of its own enumerable properties in
  enumeration order.  A number is an integer from \<open>-2^53\<close> to \<open>2^53 - 1\<close>, held in a
  54-bit word and read by \<open>sint\<close>: the checks only test a number for truthiness and
  print it, and every such integer is a double that prints in plain decimal.  Property
  lookup is lookup of an own enumerable property; \<open>length\<close> and the members a value
  inherits from its prototype are not modelled.
\<close>

datatype js_value =
    Undefined
  | Null
  | Boolean bool
  | Number "54 word"
  | String string
  | Array "js_value list"
  | Object "(string \<times> js_value) list"

datatype js_error = TypeError | SyntaxError

text \<open>\<open>!v\<close> is \<open>\<not> truthy v\<close>.\<close>

fun truthy :: "js_value \<Rightarrow> bool" where
  "truthy Undefined = False"
| "truthy Null = False"
| "truthy (Boolean b) = b"
| "truthy (Number n) = (n \<noteq> 0)"
| "truthy (String s) = (s \<noteq> [])"
| "truthy (Array xs) = True"
| "truthy (Object kvs) = True"

text \<open>Decimal digits of a number.\<close>

definition digit_char :: "nat \<Rightarrow> char" where
  "digit_char d = ''0123456789'' ! d"

fun show_nat :: "nat \<Rightarrow> string" where
  "show_nat n = (if n < 10 then [digit_char n] else show_nat (n div 10) @ [digit_char (n mod 10)])"

declare show_nat.simps [simp del]

definition show_int :: "int \<Rightarrow> string" where
  "show_int i = (if i < 0 then CHR ''-'' # show_nat (nat (- i)) else show_nat (nat i))"

text \<open>\<open>v.k\<close> and \<open>v[k]\<close>: reading a property of \<open>undefined\<close> or \<open>null\<close> throws a
  TypeError; a missing property reads as \<open>undefined\<close>.  The properties of an array
  are its elements, and those of a string its characters, under the decimal strings of
  their indices.\<close>

fun get_prop :: "js_value \<Rightarrow> string \<Rightarrow> js_error + js_value" where
  "get_prop Undefined k = Inl TypeError"
| "get_prop Null k = Inl TypeError"
| "get_prop (Object kvs) k = Inr (case map_of kvs k of None \<Rightarrow> Undefined | Some v \<Rightarrow> v)"
| "get_prop (Array xs) k =
     Inr (case find (\<lambda>i. show_nat i = k) [0..<length xs] of
            None \<Rightarrow> Undefined
          | Some i \<Rightarrow> xs ! i)"
| "get_prop (String s) k =
     Inr (case find (\<lambda>i. show_nat i = k) [0..<length s] of
            None \<Rightarrow> Undefined
          | Some i \<Rightarrow> String [s ! i])"
| "get_prop v k = Inr Undefined"

text \<open>The keys a \<open>for (const k in v)\<close> loop visits: the keys of an object, the
  indices of an array or a string.  Over \<open>undefined\<close>, \<open>null\<close>, a boolean or a number
  the loop body never runs.\<close>

fun for_in_keys :: "js_value \<Rightarrow> string list" where
  "for_in_keys (Object kvs) = map fst kvs"
| "for_in_keys (Array xs) = map show_nat [0..<length xs]"
| "for_in_keys (String s) = map show_nat [0..<length s]"
| "for_in_keys v = []"

text \<open>\<open>xs.join(",")\<close> on strings.\<close>

fun join_commas :: "string list \<Rightarrow> string" where
  "join_commas [] = []"
| "join_commas [x] = x"
| "join_commas (x # xs) = x @ '','' @ join_commas xs"

text \<open>String conversion, as a template literal \<open>`${v}`\<close> or \<open>v + "..."\<close> performs it.
  An array converts to its elements joined by commas, where an element that is
  \<open>undefined\<close> or \<open>null\<close> gives the empty string; a plain object converts to
  \<open>[object Object]\<close>.\<close>

fun to_string :: "js_value \<Rightarrow> string"
  and element_strings :: "js_value list \<Rightarrow> string list" where
  "to_string Undefined = ''undefined''"
| "to_string Null = ''null''"
| "to_string (Boolean b) = (if b then ''true'' else ''false'')"
| "to_string (Number n) = show_int (sint n)"
| "to_string (String s) = s"
| "to_string (Array xs) = join_commas (element_strings xs)"
| "to_string (Object kvs) = ''[object Object]''"
| "element_strings [] = []"
| "element_strings (v # vs) =
     (if v = Undefined \<or> v = Null then [] else to_string v) # element_strings vs"

text \<open>\<open>s.startsWith(p)\<close> and \<open>s.slice(-1)\<close>.\<close>

definition startsWith :: "string \<Rightarrow> string \<Rightarrow> bool" where
  "startsWith s p = (take (length p) s = p)"

definition slice_last :: "string \<Rightarrow> string" where
  "slice_last s = drop (length s - 1) s"

section \<open>Failures, results and the run configuration\<close>

text \<open>
  A failure kind of a catalog has a name and a function rendering its text from an
  argument object.  The text functions of this suite read one property of the argument
  inside a template literal; they are called with the argument object built at the call
  site.
\<close>

record failure =
  name :: string
  text_fn :: "js_value \<Rightarrow> string"
  message :: "string option"

text \<open>\<open>`${args.k}`\<close> inside a text function.\<close>

definition template_arg :: "js_value \<Rightarrow> string \<Rightarrow> string" where
  "template_arg args k = (case get_prop args k of Inl e \<Rightarrow> ''undefined'' | Inr v \<Rightarrow> to_string v)"

text \<open>Modelled from the spec: \<open>makeFailure\<close> of helpers/failure is not among the sources.
  A Failure is a kind with its rendered message: the catalog entry, with \<open>message\<close> set
  to the text rendered from the arguments.\<close>

definition makeFailure :: "failure \<Rightarrow> js_value \<Rightarrow> failure" where
  "makeFailure f args = f\<lparr>message := Some (text_fn f args)\<rparr>"

record request =
  http_method :: string
  url :: string
  headers :: "(string \<times> string) list"
  json :: "js_error + js_value"
  text_body :: "js_error + string"

record response =
  status :: int
  response_headers :: "(string \<times> string) list"
  response_json :: "js_error + js_value"
  response_text :: "js_error + string"

record networkCall =
  request :: request
  response :: "response option"

record result =
  networkCalls :: "networkCall list"
  failure :: "failure option"
  expected :: js_value
  actual :: js_value

text \<open>\<open>const result: Result = { networkCalls: [] }\<close>.\<close>

definition new_result :: result where
  "new_result = \<lparr>networkCalls = [], failure = None, expected = Undefined, actual = Undefined\<rparr>"

text \<open>The Config of types.ts is not among the sources.  The checks touch its optional
  \<open>assetCode\<close> only; every other field is the record's extension.\<close>

record config =
  assetCode :: "string option"

text \<open>\<open>!config.assetCode\<close>: the field is missing or the empty string.\<close>

definition no_assetCode :: "'a config_scheme \<Rightarrow> bool" where
  "no_assetCode c = (case assetCode c of None \<Rightarrow> True | Some s \<Rightarrow> s = [])"

section \<open>The SEP-24 suite (src/tests/sep24/tests.ts)\<close>

text \<open>
  A Test object is known by the constant it is bound to: \<open>ref\<close> is that identity, and
  \<open>dependencies\<close> holds references to Test objects.  \<open>tomlExists\<close> is imported from
  the SEP-1 suite.  No test of this suite sets \<open>successMessage\<close>, which the reporter
  reads.  The \<open>run\<close> method of each test is the function named after it below; it
  takes and returns the configuration and the context object it works on, and yields
  the Result or the error thrown.
\<close>

datatype test_ref =
    TomlExists
  | HasTransferServerUrl
  | IsCompliantWithSchema
  | ContainsConfiguredAssetCode
  | DepositRequiresToken

record test =
  ref :: test_ref
  assertion :: string
  sep :: nat
  group :: string
  dependencies :: "test_ref list"
  failureModes :: "string \<rightharpoonup> failure"
  successMessage :: "string option"

text \<open>\<open>this.context\<close>: the \<open>expects\<close> and \<open>provides\<close> objects, each slot \<open>undefined\<close>
  until it is written.\<close>

record test_context =
  expects :: "string \<Rightarrow> js_value"
  provides :: "string \<Rightarrow> js_value"

definition tomlTestsGroup :: string where "tomlTestsGroup = ''TOML tests''"
definition infoTestsGroup :: string where "infoTestsGroup = ''/info tests''"
definition depositTestsGroup :: string where "depositTestsGroup = ''/deposit tests''"
definition depositEndpoint :: string where
  "depositEndpoint = ''/transactions/deposit/interactive''"

text \<open>\<open>result.failure = makeFailure(this.failureModes.K, args)\<close>.  A key the catalog
  lacks reads as \<open>undefined\<close>, whose \<open>text\<close> cannot be called.\<close>

definition fail_with ::
  "(string \<rightharpoonup> failure) \<Rightarrow> string \<Rightarrow> js_value \<Rightarrow> result \<Rightarrow> js_error + result" where
  "fail_with catalog k args r =
     (case catalog k of
        None \<Rightarrow> Inl TypeError
      | Some f \<Rightarrow> Inr (r\<lparr>failure := Some (makeFailure f args)\<rparr>))"

subsection \<open>hasTransferServerUrl\<close>

definition TRANSFER_SERVER_NOT_FOUND :: failure where
  "TRANSFER_SERVER_NOT_FOUND =
     \<lparr>name = ''TRANSFER_SERVER_SEP0024 not found'',
      text_fn = (\<lambda>_. ''The stellar.toml file does not have a valid TRANSFER_SERVER_SEP0024 URL''),
      message = None\<rparr>"

definition NO_HTTPS :: failure where
  "NO_HTTPS =
     \<lparr>name = ''no https'',
      text_fn = (\<lambda>_. ''The transfer server URL must use HTTPS''),
      message = None\<rparr>"

definition ENDS_WITH_SLASH :: failure where
  "ENDS_WITH_SLASH =
     \<lparr>name = ''ends with slash'',
      text_fn = (\<lambda>_. ''The transfer server URL cannot end with a '' @ [CHR 0x27, CHR ''/'', CHR 0x27]),
      message = None\<rparr>"

definition hasTransferServerUrl :: test where
  "hasTransferServerUrl =
     \<lparr>ref = HasTransferServerUrl,
      assertion = ''has a valid transfer server URL'',
      sep = 24,
      group = tomlTestsGroup,
      dependencies = [TomlExists],
      failureModes =
        [''TRANSFER_SERVER_NOT_FOUND'' \<mapsto> TRANSFER_SERVER_NOT_FOUND,
         ''NO_HTTPS'' \<mapsto> NO_HTTPS,
         ''ENDS_WITH_SLASH'' \<mapsto> ENDS_WITH_SLASH],
      successMessage = None\<rparr>"

text \<open>\<open>hasTransferServerUrl.run\<close>.  The slot is written before any test of its value.
  \<open>startsWith\<close> is a method of strings only: on any other truthy value the call
  throws.\<close>

definition hasTransferServerUrl_run ::
  "'a config_scheme \<Rightarrow> test_context \<Rightarrow> 'a config_scheme \<times> test_context \<times> (js_error + result)" where
  "hasTransferServerUrl_run cfg ctx =
     (let r = new_result;
          tomlObj = expects ctx ''tomlObj''
      in case get_prop tomlObj ''TRANSFER_SERVER_SEP0024'' of
           Inl e \<Rightarrow> (cfg, ctx, Inl e)
         | Inr a \<Rightarrow>
            (case (if truthy a then Inr a else get_prop tomlObj ''TRANSFER_SERVER'') of
               Inl e \<Rightarrow> (cfg, ctx, Inl e)
             | Inr u \<Rightarrow>
                (let ctx' = ctx\<lparr>provides := (provides ctx)(''transferServerUrl'' := u)\<rparr>;
                     modes = failureModes hasTransferServerUrl
                 in if \<not> truthy u
                    then (cfg, ctx', fail_with modes ''TRANSFER_SERVER_NOT_FOUND'' Undefined r)
                    else case u of
                           String s \<Rightarrow>
                             if \<not> startsWith s ''https''
                             then (cfg, ctx', fail_with modes ''NO_HTTPS'' Undefined r)
                             else if slice_last s = ''/''
                             then (cfg, ctx', fail_with modes ''ENDS_WITH_SLASH'' Undefined r)
                             else (cfg, ctx', Inr r)
                         | _ \<Rightarrow> (cfg, ctx', Inl TypeError))))"

subsection \<open>What the suite imports\<close>

text \<open>
  The request helper, the schema validator, JSON and the key generator are not among
  the sources; the suite is parametric in them.
  \<^item> \<open>makeRequest call status result contentType\<close>: what the helper has done to the
    Result, and the decoded body its promise resolves to, once that promise has settled.
  \<^item> \<open>validate v\<close>: the errors of \<open>validate(v, infoSchema)\<close>, each as the string
    \<open>join\<close> makes of it.
  \<^item> \<open>publicKey\<close>: the key \<open>Keypair.random().publicKey()\<close> returns in this run.
\<close>

record externals =
  makeRequest :: "networkCall \<Rightarrow> int \<Rightarrow> result \<Rightarrow> string option \<Rightarrow> result \<times> js_value"
  validate :: "js_value \<Rightarrow> string list"
  JSON_stringify :: "js_value \<Rightarrow> string"
  JSON_parse :: "string \<Rightarrow> js_error + js_value"
  publicKey :: string

text \<open>\<open>new Request(url)\<close> and \<open>new Request(url, {method, body, headers})\<close>.  The
  fields \<open>json\<close> and \<open>text_body\<close> are what the methods \<open>json()\<close> and \<open>text()\<close> of the
  Request resolve to or reject with; \<open>headers\<close> are the entries of its Headers object,
  which keeps the names in lower case.\<close>

definition new_Request :: "string \<Rightarrow> request" where
  "new_Request u =
     \<lparr>http_method = ''GET'', url = u, headers = [], json = Inl SyntaxError, text_body = Inr []\<rparr>"

definition new_Request_init ::
  "externals \<Rightarrow> string \<Rightarrow> string \<Rightarrow> string \<Rightarrow> (string \<times> string) list \<Rightarrow> request" where
  "new_Request_init ext u m body hs =
     \<lparr>http_method = m, url = u, headers = hs, json = JSON_parse ext body, text_body = Inr body\<rparr>"

text \<open>\<open>errors.join("\n")\<close>.\<close>

fun join_lines :: "string list \<Rightarrow> string" where
  "join_lines [] = []"
| "join_lines [x] = x"
| "join_lines (x # xs) = x @ [CHR 0x0A] @ join_lines xs"

subsection \<open>isCompliantWithSchema\<close>

definition INVALID_SCHEMA :: failure where
  "INVALID_SCHEMA =
     \<lparr>name = ''invalid schema'',
      text_fn = (\<lambda>args.
        ''The response body returned does not comply with the schema defined for the /info endpoint:''
        @ [CHR 0x0A, CHR 0x0A]
        @ ''https://github.com/stellar/stellar-protocol/blob/master/ecosystem/sep-0024.md#info''
        @ [CHR 0x0A, CHR 0x0A]
        @ ''The errors returned from the schema validation:''
        @ [CHR 0x0A, CHR 0x0A]
        @ template_arg args ''errors''),
      message = None\<rparr>"

text \<open>An object literal \<open>{K: v, ...genericFailures}\<close>: the spread comes last, so a
  generic entry replaces a named entry of the same key.\<close>

definition isCompliantWithSchema :: "(string \<rightharpoonup> failure) \<Rightarrow> test" where
  "isCompliantWithSchema genericFailures =
     \<lparr>ref = IsCompliantWithSchema,
      assertion = ''response is compliant with the schema'',
      sep = 24,
      group = infoTestsGroup,
      dependencies = [TomlExists, HasTransferServerUrl],
      failureModes = [''INVALID_SCHEMA'' \<mapsto> INVALID_SCHEMA] ++ genericFailures,
      successMessage = None\<rparr>"

definition isCompliantWithSchema_run ::
  "externals \<Rightarrow> (string \<rightharpoonup> failure) \<Rightarrow> 'a config_scheme \<Rightarrow> test_context
     \<Rightarrow> 'a config_scheme \<times> test_context \<times> (js_error + result)" where
  "isCompliantWithSchema_run ext genericFailures cfg ctx =
     (let r = new_result;
          infoCall =
            \<lparr>request = new_Request (to_string (expects ctx ''transferServerUrl'') @ ''/info''),
             response = None\<rparr>;
          r = r\<lparr>networkCalls := networkCalls r @ [infoCall]\<rparr>;
          (r, body) = makeRequest ext infoCall 200 r (Some ''application/json'');
          ctx' = ctx\<lparr>provides := (provides ctx)(''infoObj'' := body)\<rparr>
      in if failure r \<noteq> None then (cfg, ctx', Inr r)
         else
           (let errors = validate ext body
            in if length errors > 0
               then (cfg, ctx',
                     fail_with (failureModes (isCompliantWithSchema genericFailures))
                       ''INVALID_SCHEMA''
                       (Object [(''errors'', String (join_lines errors))]) r)
               else (cfg, ctx', Inr r)))"

subsection \<open>containsConfiguredAssetCode\<close>

definition CONFIGURED_ASSET_CODE_NOT_FOUND :: failure where
  "CONFIGURED_ASSET_CODE_NOT_FOUND =
     \<lparr>name = ''configured asset code not found'',
      text_fn = (\<lambda>args. template_arg args ''assetCode'' @ '' is not present in the /info response''),
      message = None\<rparr>"

definition CONFIGURED_ASSET_CODE_NOT_ENABLED :: failure where
  "CONFIGURED_ASSET_CODE_NOT_ENABLED =
     \<lparr>name = ''configured asset code not enabled'',
      text_fn = (\<lambda>args. template_arg args ''assetCode'' @ '' is not enabled for SEP-24''),
      message = None\<rparr>"

definition NO_ASSET_CODES :: failure where
  "NO_ASSET_CODES =
     \<lparr>name = ''no enabled assets'',
      text_fn = (\<lambda>_. ''There are no enabled assets in the /info response''),
      message = None\<rparr>"

definition NO_INFO :: failure where
  "NO_INFO =
     \<lparr>name = ''unable to parse or fetch /info JSON'',
      text_fn = (\<lambda>_. ''unable to fetch JSON''),
      message = None\<rparr>"

definition containsConfiguredAssetCode :: "(string \<rightharpoonup> failure) \<Rightarrow> test" where
  "containsConfiguredAssetCode genericFailures =
     \<lparr>ref = ContainsConfiguredAssetCode,
      assertion = ''contains configured asset code'',
      sep = 24,
      group = infoTestsGroup,
      dependencies = [TomlExists, IsCompliantWithSchema],
      failureModes =
        [''CONFIGURED_ASSET_CODE_NOT_FOUND'' \<mapsto> CONFIGURED_ASSET_CODE_NOT_FOUND,
         ''CONFIGURED_ASSET_CODE_NOT_ENABLED'' \<mapsto> CONFIGURED_ASSET_CODE_NOT_ENABLED,
         ''NO_ASSET_CODES'' \<mapsto> NO_ASSET_CODES,
         ''NO_INFO'' \<mapsto> NO_INFO] ++ genericFailures,
      successMessage = None\<rparr>"

text \<open>The loop \<open>for (const assetCode in depositAssets)\<close> over the keys still to visit:
  the first key whose entry has a truthy \<open>enabled\<close> is written to the configuration and
  the loop breaks.\<close>

fun discover_assetCode ::
  "js_value \<Rightarrow> string list \<Rightarrow> 'a config_scheme \<Rightarrow> js_error + 'a config_scheme" where
  "discover_assetCode depositAssets [] cfg = Inr cfg"
| "discover_assetCode depositAssets (k # ks) cfg =
     (case get_prop depositAssets k of
        Inl e \<Rightarrow> Inl e
      | Inr entry \<Rightarrow>
         (case get_prop entry ''enabled'' of
            Inl e \<Rightarrow> Inl e
          | Inr en \<Rightarrow>
             if truthy en then Inr (cfg\<lparr>assetCode := Some k\<rparr>)
             else discover_assetCode depositAssets ks cfg))"

definition containsConfiguredAssetCode_run ::
  "(string \<rightharpoonup> failure) \<Rightarrow> 'a config_scheme \<Rightarrow> test_context
     \<Rightarrow> 'a config_scheme \<times> test_context \<times> (js_error + result)" where
  "containsConfiguredAssetCode_run genericFailures cfg ctx =
     (let r = new_result;
          modes = failureModes (containsConfiguredAssetCode genericFailures)
      in case get_prop (expects ctx ''infoObj'') ''deposit'' of
           Inl e \<Rightarrow> (cfg, ctx, Inl e)
         | Inr depositAssets \<Rightarrow>
            if no_assetCode cfg
            then
              (case discover_assetCode depositAssets (for_in_keys depositAssets) cfg of
                 Inl e \<Rightarrow> (cfg, ctx, Inl e)
               | Inr cfg' \<Rightarrow>
                  if no_assetCode cfg'
                  then (cfg', ctx, fail_with modes ''NO_ASSET_CODES'' Undefined r)
                  else (cfg', ctx, Inr r))
            else
              (let code = (case assetCode cfg of None \<Rightarrow> [] | Some s \<Rightarrow> s);
                   args = Object [(''assetCode'', String code)]
               in case get_prop depositAssets code of
                    Inl e \<Rightarrow> (cfg, ctx, Inl e)
                  | Inr entry \<Rightarrow>
                     if \<not> truthy entry
                     then (cfg, ctx, fail_with modes ''CONFIGURED_ASSET_CODE_NOT_FOUND'' args r)
                     else
                       (case get_prop entry ''enabled'' of
                          Inl e \<Rightarrow> (cfg, ctx, Inl e)
                        | Inr en \<Rightarrow>
                           if \<not> truthy en
                           then (cfg, ctx,
                                 fail_with modes ''CONFIGURED_ASSET_CODE_NOT_ENABLED'' args r)
                           else (cfg, ctx, Inr r))))"

subsection \<open>depositRequiresToken\<close>

definition depositRequiresToken :: "(string \<rightharpoonup> failure) \<Rightarrow> test" where
  "depositRequiresToken genericFailures =
     \<lparr>ref = DepositRequiresToken,
      assertion = ''requires a SEP-10 JWT'',
      sep = 24,
      group = depositTestsGroup,
      dependencies = [HasTransferServerUrl, ContainsConfiguredAssetCode],
      failureModes = Map.empty ++ genericFailures,
      successMessage = None\<rparr>"

text \<open>
  \<open>depositRequiresToken.run\<close> calls the request helper without \<open>await\<close> and returns.
  \<open>returned\<close> is what the promise of \<open>run\<close> resolves to, at the time it resolves: the
  configuration, the context and the Result as \<open>run\<close> left them.  \<open>floating\<close> is what
  the helper, still running, has made of that Result once its own promise settles.
\<close>

record 'a deposit_run =
  returned :: "'a config_scheme \<times> test_context \<times> (js_error + result)"
  floating :: "result \<times> js_value"

definition depositRequiresToken_run ::
  "externals \<Rightarrow> 'a config_scheme \<Rightarrow> test_context \<Rightarrow> 'a deposit_run" where
  "depositRequiresToken_run ext cfg ctx =
     (let r = new_result;
          postDepositCall =
            \<lparr>request =
               new_Request_init ext
                 (to_string (expects ctx ''transferServerUrl'') @ depositEndpoint)
                 ''POST''
                 (JSON_stringify ext
                    (Object
                       [(''account'', String (publicKey ext)),
                        (''asset_code'',
                           (case assetCode cfg of None \<Rightarrow> Undefined | Some s \<Rightarrow> String s))]))
                 [(''content-type'', ''application/json'')],
             response = None\<rparr>;
          r = r\<lparr>networkCalls := networkCalls r @ [postDepositCall]\<rparr>
      in \<lparr>returned = (cfg, ctx, Inr r),
          floating = makeRequest ext postDepositCall 403 r None\<rparr>)"

subsection \<open>The exported list\<close>

text \<open>\<open>tests.push(t)\<close> after each declaration, in the order of the file.\<close>

definition push :: "'a list \<Rightarrow> 'a \<Rightarrow> 'a list" where
  "push xs x = xs @ [x]"

definition tests :: "(string \<rightharpoonup> failure) \<Rightarrow> test list" where
  "tests genericFailures =
     push (push (push (push []
       hasTransferServerUrl)
       (isCompliantWithSchema genericFailures))
       (containsConfiguredAssetCode genericFailures))
       (depositRequiresToken genericFailures)"

section \<open>The console reporter (src/helpers/console.ts)\<close>

text \<open>
  What the reporter does is the sequence of its effects: the calls of \<open>console\<close>, and
  the calls of the body readers \<open>json()\<close> and \<open>text()\<close> of a captured request or
  response.  \<open>console.log()\<close> without an argument is \<open>Log []\<close>.
\<close>

datatype effect =
    Log string
  | Group
  | GroupEnd
  | Dir js_value
  | Request_json
  | Request_text
  | Response_json
  | Response_text

text \<open>An asynchronous computation: the effects it performed, and the value it resolved
  to or the error it rejected with.  An error ends the computation.\<close>

type_synonym 'a io = "effect list \<times> (js_error + 'a)"

definition io_return :: "'a \<Rightarrow> 'a io" where
  "io_return x = ([], Inr x)"

definition emit :: "effect list \<Rightarrow> unit io" where
  "emit es = (es, Inr ())"

text \<open>\<open>await m()\<close>: the call is an effect, its outcome is the outcome given.\<close>

definition await :: "effect \<Rightarrow> js_error + 'a \<Rightarrow> 'a io" where
  "await e outcome = ([e], outcome)"

definition io_bind :: "'a io \<Rightarrow> ('a \<Rightarrow> 'b io) \<Rightarrow> 'b io" where
  "io_bind m f =
     (case m of
        (es, Inl e) \<Rightarrow> (es, Inl e)
      | (es, Inr x) \<Rightarrow> (case f x of (es', y) \<Rightarrow> (es @ es', y)))"

definition io_then :: "unit io \<Rightarrow> 'b io \<Rightarrow> 'b io" where
  "io_then m k = io_bind m (\<lambda>_. k)"

text \<open>The colour functions and symbols of ansi-colors, which is not among the sources.\<close>

record ansi_colors =
  red :: "string \<Rightarrow> string"
  green :: "string \<Rightarrow> string"
  bold :: "string \<Rightarrow> string"
  red_bold :: "string \<Rightarrow> string"
  green_bold :: "string \<Rightarrow> string"
  symbols_cross :: string
  symbols_check :: string
  symbols_pointer :: string

text \<open>The counters of Stats; a member of \<open>suiteStats\<close> has them too.\<close>

record counters =
  total :: nat
  passed :: nat
  failed :: nat

record 's stats = counters +
  suiteStats :: "'s counters_scheme list option"

text \<open>\<open>for (const suiteStat of stats.suiteStats) if (suiteStat.failed === 0)
  suitesPassed += 1\<close>, from the value \<open>suitesPassed\<close> has before the loop.\<close>

fun count_suitesPassed :: "'s counters_scheme list \<Rightarrow> int \<Rightarrow> int" where
  "count_suitesPassed [] suitesPassed = suitesPassed"
| "count_suitesPassed (suiteStat # rest) suitesPassed =
     count_suitesPassed rest (if failed suiteStat = 0 then suitesPassed + 1 else suitesPassed)"

text \<open>\<open>printColoredTextStats\<close>.  \<open>toFixed3\<close> stands for
  \<open>((endTime - startTime) / 1000).toFixed(3)\<close>, a floating-point rendering of the
  elapsed milliseconds.\<close>

definition printColoredTextStats ::
  "ansi_colors \<Rightarrow> (int \<Rightarrow> string) \<Rightarrow> ('s, 'a) stats_scheme \<Rightarrow> int \<Rightarrow> int \<Rightarrow> effect list" where
  "printColoredTextStats c toFixed3 st startTime endTime =
     (case suiteStats st of
        None \<Rightarrow> []
      | Some ss \<Rightarrow>
         (let suitesPassed = count_suitesPassed ss 0;
              testSuitesLine = ''Test Suites: '';
              testSuitesLine =
                (if int (length ss) \<noteq> suitesPassed
                 then testSuitesLine
                        @ red c (show_int (int (length ss) - suitesPassed) @ '' failed'') @ '', ''
                 else testSuitesLine);
              testSuitesLine =
                (if suitesPassed \<noteq> 0
                 then testSuitesLine @ green c (show_int suitesPassed @ '' passed'') @ '', ''
                 else testSuitesLine);
              testSuitesLine = testSuitesLine @ show_nat (length ss) @ '' total''
          in [Log testSuitesLine]))
     @ (let testsLine = ''Tests:       '';
            testsLine =
              (if failed st \<noteq> 0
               then testsLine @ red c (show_nat (failed st) @ '' failed'') @ '', ''
               else testsLine);
            testsLine =
              (if passed st \<noteq> 0
               then testsLine @ green c (show_nat (passed st) @ '' passed'') @ '', ''
               else testsLine);
            testsLine = testsLine @ show_nat (total st) @ '' total'';
            secondsString = toFixed3 (endTime - startTime)
        in [Log testsLine, Log (''Time:        '' @ secondsString @ ''s'')])"

definition printStats ::
  "ansi_colors \<Rightarrow> (int \<Rightarrow> string) \<Rightarrow> ('s, 'a) stats_scheme \<Rightarrow> int \<Rightarrow> int \<Rightarrow> effect list" where
  "printStats c toFixed3 st startTime endTime = printColoredTextStats c toFixed3 st startTime endTime"

text \<open>A TestRun: the test, its result and, when there is one, the suite.\<close>

record suite =
  suite_sep :: "nat option"
  suite_name :: string

record testRun =
  test :: test
  suite :: "suite option"
  result :: result

text \<open>\<open>Object.fromEntries(h.entries())\<close>, \<open>obj[k]\<close> on the object it makes, and
  \<open>s.includes(p)\<close>.\<close>

fun obj_set :: "(string \<times> 'v) list \<Rightarrow> string \<Rightarrow> 'v \<Rightarrow> (string \<times> 'v) list" where
  "obj_set [] k v = [(k, v)]"
| "obj_set ((k', v') # kvs) k v =
     (if k' = k then (k, v) # kvs else (k', v') # obj_set kvs k v)"

definition fromEntries :: "(string \<times> 'v) list \<Rightarrow> (string \<times> 'v) list" where
  "fromEntries es = foldl (\<lambda>obj (k, v). obj_set obj k v) [] es"

fun str_includes :: "string \<Rightarrow> string \<Rightarrow> bool" where
  "str_includes [] p = (p = [])"
| "str_includes (c # cs) p = (startsWith (c # cs) p \<or> str_includes cs p)"

text \<open>\<open>hs[k] && hs[k].includes(p)\<close> for an object of header strings.\<close>

definition header_includes :: "(string \<times> string) list \<Rightarrow> string \<Rightarrow> string \<Rightarrow> bool" where
  "header_includes hs k p =
     (case map_of hs k of None \<Rightarrow> False | Some v \<Rightarrow> v \<noteq> [] \<and> str_includes v p)"

text \<open>The block printing the keys of a header object, when it has any.\<close>

definition print_headers :: "(string \<times> string) list \<Rightarrow> effect list" where
  "print_headers hs =
     (if length (map fst hs) \<noteq> 0
      then [Log (''Headers:'' @ [CHR 0x0A]), Group]
           @ map (\<lambda>header. Log (header @ '': '' @ (case map_of hs header of None \<Rightarrow> ''undefined'' | Some v \<Rightarrow> v)))
               (map fst hs)
           @ [GroupEnd, Log []]
      else [])"

text \<open>The body of the loop over \<open>testRun.result.networkCalls\<close>, in the order of
  the source: reading the request body, printing it, printing the response.\<close>

definition read_requestBody :: "request \<Rightarrow> (string \<times> string) list \<Rightarrow> (bool \<times> js_value) io" where
  "read_requestBody req requestHeaders =
     (if header_includes requestHeaders ''content-type'' ''json''
      then io_bind (await Request_json (json req)) (\<lambda>v. io_return (True, v))
      else if header_includes requestHeaders ''content-type'' ''multipart/form-data''
      then io_return (False, String [])
      else io_bind (await Request_text (text_body req)) (\<lambda>t. io_return (False, String t)))"

definition print_requestBody :: "bool \<Rightarrow> js_value \<Rightarrow> effect list" where
  "print_requestBody requestBodyIsJson requestBody =
     (if truthy requestBody
      then [Log (''Body:'' @ [CHR 0x0A])]
           @ (if requestBodyIsJson then [Dir requestBody]
              else [Group, Log (to_string requestBody), GroupEnd])
           @ [Log []]
      else [])"

definition print_response :: "response option \<Rightarrow> unit io" where
  "print_response r =
     (case r of
        Some resp \<Rightarrow>
          (let responseHeaders = fromEntries (response_headers resp)
           in
           io_then
             (emit ([Log (''Status Code: '' @ show_int (status resp) @ [CHR 0x0A])]
                    @ print_headers responseHeaders
                    @ [Log (''Body:'' @ [CHR 0x0A])]))
          (io_then
             (if header_includes (response_headers resp) ''content-type'' ''json''
              then io_bind (await Response_json (response_json resp)) (\<lambda>v. emit [Dir v])
              else io_then (emit [Group])
                     (io_bind (await Response_text (response_text resp))
                        (\<lambda>t. emit [Log t, GroupEnd])))
             (emit [Log []])))
      | None \<Rightarrow> emit [Log (''No response returned.'' @ [CHR 0x0A])])"

definition print_networkCall :: "networkCall \<Rightarrow> unit io" where
  "print_networkCall nc =
     (let req = request nc;
          requestHeaders = fromEntries (headers req)
      in
      io_then
        (emit ([Log (''Request:'' @ [CHR 0x0A]), Group,
                Log (http_method req @ '' '' @ url req @ [CHR 0x0A])]
               @ print_headers requestHeaders
               @ [GroupEnd]))
     (io_bind (read_requestBody req requestHeaders)
        (\<lambda>(requestBodyIsJson, requestBody).
     io_then (emit (print_requestBody requestBodyIsJson requestBody))
     (io_then (emit [Log (''Response:'' @ [CHR 0x0A]), Group])
     (io_then (print_response (response nc))
        (emit [GroupEnd]))))))"

fun print_networkCalls :: "networkCall list \<Rightarrow> unit io" where
  "print_networkCalls [] = io_return ()"
| "print_networkCalls (nc # ncs) = io_then (print_networkCall nc) (print_networkCalls ncs)"

text \<open>The header line of a test run, before it is coloured.\<close>

definition header_text :: "ansi_colors \<Rightarrow> testRun \<Rightarrow> string" where
  "header_text c tr =
     (let symbol = (if failure (result tr) \<noteq> None then symbols_cross c else symbols_check c);
          header = symbol @ '' '';
          header =
            (case suite tr of
               None \<Rightarrow> header
             | Some su \<Rightarrow>
                (let header =
                       (case suite_sep su of
                          None \<Rightarrow> header
                        | Some n \<Rightarrow>
                           if n \<noteq> 0
                           then header @ ''SEP-'' @ show_nat n @ '' '' @ symbols_pointer c @ '' ''
                           else header)
                 in header @ suite_name su @ '' '' @ symbols_pointer c @ '' ''))
      in header @ assertion (test tr))"

text \<open>\<open>x + "\n"\<close> for an optional string \<open>x\<close>.\<close>

definition plus_newline :: "string option \<Rightarrow> string" where
  "plus_newline x = (case x of None \<Rightarrow> ''undefined'' | Some s \<Rightarrow> s) @ [CHR 0x0A]"

definition printColoredTextTestRun :: "ansi_colors \<Rightarrow> testRun \<Rightarrow> bool \<Rightarrow> unit io" where
  "printColoredTextTestRun c tr verbose =
     (let color = (if failure (result tr) \<noteq> None then red_bold c else green_bold c)
      in
      io_then
        (emit [Log (color (header_text c tr)), Group])
     (io_then
        (case failure (result tr) of
           Some f \<Rightarrow>
             emit ([Log [],
                    Log (bold c (''Failure Type:'' @ [CHR 0x0A])),
                    Group,
                    Log (name f @ [CHR 0x0A]),
                    GroupEnd,
                    Log (bold c (''Description:'' @ [CHR 0x0A])),
                    Group,
                    Log (plus_newline (message f))]
                   @ (if truthy (expected (result tr)) \<and> truthy (actual (result tr))
                      then [Log (''Expected: '' @ to_string (expected (result tr))),
                            Log (''Received: '' @ [CHR 0x27] @ to_string (actual (result tr))
                                 @ [CHR 0x27, CHR 0x0A])]
                      else [])
                   @ [GroupEnd])
         | None \<Rightarrow>
             if verbose
             then emit [Log (bold c ([CHR 0x0A] @ ''Description:'' @ [CHR 0x0A])),
                        Group,
                        Log (plus_newline (successMessage (test tr))),
                        GroupEnd]
             else emit [])
     (io_then
        (if verbose \<and> length (networkCalls (result tr)) \<noteq> 0
         then io_then (emit [Log (bold c (''Network Calls:'' @ [CHR 0x0A]))])
                (print_networkCalls (networkCalls (result tr)))
         else emit [])
        (emit [GroupEnd]))))"

definition printTestRun :: "ansi_colors \<Rightarrow> testRun \<Rightarrow> bool \<Rightarrow> unit io" where
  "printTestRun c tr verbose = printColoredTextTestRun c tr verbose"

section \<open>Notions the properties are stated with\<close>

text \<open>An asset of the deposit map is enabled: its entry is an object whose \<open>enabled\<close>
  is truthy.\<close>

definition asset_enabled :: "(string \<times> js_value) list \<Rightarrow> string \<Rightarrow> bool" where
  "asset_enabled kvs k =
     (case map_of kvs k of
        Some (Object ps) \<Rightarrow> (case map_of ps ''enabled'' of Some en \<Rightarrow> truthy en | None \<Rightarrow> False)
      | _ \<Rightarrow> False)"



section \<open>Properties of the SEP-24 suite\<close>

lemma tests_list:
  "tests g =
     [hasTransferServerUrl, isCompliantWithSchema g,
      containsConfiguredAssetCode g, depositRequiresToken g]"
  by (simp add: tests_def push_def)

lemmas test_defs =
  hasTransferServerUrl_def isCompliantWithSchema_def
  containsConfiguredAssetCode_def depositRequiresToken_def

text \<open>
  C1 (as the code has it).  The generic catalog is spread into the catalogs of
  isCompliantWithSchema, containsConfiguredAssetCode and depositRequiresToken: each of
  them holds every generic kind, next to its named kinds.  The catalog of
  hasTransferServerUrl has no spread: it holds its three named kinds and nothing else.
\<close>

theorem genericFailures_merged:
  "g \<subseteq>\<^sub>m failureModes (isCompliantWithSchema g)
   \<and> g \<subseteq>\<^sub>m failureModes (containsConfiguredAssetCode g)
   \<and> g \<subseteq>\<^sub>m failureModes (depositRequiresToken g)
   \<and> dom (failureModes (isCompliantWithSchema g)) = {''INVALID_SCHEMA''} \<union> dom g
   \<and> dom (failureModes (containsConfiguredAssetCode g))
       = {''CONFIGURED_ASSET_CODE_NOT_FOUND'', ''CONFIGURED_ASSET_CODE_NOT_ENABLED'',
          ''NO_ASSET_CODES'', ''NO_INFO''} \<union> dom g
   \<and> dom (failureModes (depositRequiresToken g)) = dom g
   \<and> dom (failureModes hasTransferServerUrl)
       = {''TRANSFER_SERVER_NOT_FOUND'', ''NO_HTTPS'', ''ENDS_WITH_SLASH''}"
  by (auto simp: test_defs map_le_map_add)

text \<open>
  C1 as stated fails: with a generic catalog of one kind, keyed
  \<open>UNEXPECTED_STATUS_CODE\<close>, the catalog of hasTransferServerUrl, a test of the list,
  does not hold that kind.
\<close>

theorem genericFailures_not_in_every_test:
  "hasTransferServerUrl
     \<in> set (tests [''UNEXPECTED_STATUS_CODE'' \<mapsto>
                     \<lparr>name = ''unexpected status code'', text_fn = (\<lambda>_. []), message = None\<rparr>])
   \<and> \<not> ([''UNEXPECTED_STATUS_CODE'' \<mapsto>
            \<lparr>name = ''unexpected status code'', text_fn = (\<lambda>_. []), message = None\<rparr>]
          \<subseteq>\<^sub>m failureModes hasTransferServerUrl)"
  by (simp add: tests_list map_le_def hasTransferServerUrl_def)

text \<open>
  C7.  The exported list is a topological order of the declared dependencies: every
  dependency of the test at index \<open>i\<close> is \<open>tomlExists\<close>, which is not in the list, or
  the test at an index below \<open>i\<close>; so the dependency edges declared in this file have
  no cycle.
\<close>

theorem tests_topological_order:
  "(\<forall>i < length (tests g). \<forall>d \<in> set (dependencies (tests g ! i)).
      d = TomlExists \<or> (\<exists>j < i. ref (tests g ! j) = d))
   \<and> TomlExists \<notin> ref ` set (tests g)
   \<and> acyclic {(d, ref t) | d t. t \<in> set (tests g) \<and> d \<in> set (dependencies t)}"
proof (intro conjI)
  show "\<forall>i < length (tests g). \<forall>d \<in> set (dependencies (tests g ! i)).
          d = TomlExists \<or> (\<exists>j < i. ref (tests g ! j) = d)"
  proof (intro allI impI ballI)
    fix i d
    assume i: "i < length (tests g)" and d: "d \<in> set (dependencies (tests g ! i))"
    from i have "i = 0 \<or> i = 1 \<or> i = 2 \<or> i = 3"
      by (auto simp: tests_list)
    then show "d = TomlExists \<or> (\<exists>j < i. ref (tests g ! j) = d)"
    proof (elim disjE)
      assume "i = 0"
      with d show ?thesis
        by (simp add: tests_list test_defs)
    next
      assume "i = 1"
      with d have "d = TomlExists \<or> (0 < i \<and> ref (tests g ! 0) = d)"
        by (auto simp: tests_list test_defs)
      then show ?thesis by blast
    next
      assume "i = 2"
      with d have "d = TomlExists \<or> (1 < i \<and> ref (tests g ! 1) = d)"
        by (auto simp: tests_list test_defs)
      then show ?thesis by blast
    next
      assume "i = 3"
      with d have "(0 < i \<and> ref (tests g ! 0) = d) \<or> (2 < i \<and> ref (tests g ! 2) = d)"
        by (auto simp: tests_list test_defs)
      then show ?thesis by blast
    qed
  qed
  show "TomlExists \<notin> ref ` set (tests g)"
    by (simp add: tests_list test_defs)
  let ?rank = "\<lambda>r. case r of
      TomlExists \<Rightarrow> (4::nat) | HasTransferServerUrl \<Rightarrow> 3 | IsCompliantWithSchema \<Rightarrow> 2
    | ContainsConfiguredAssetCode \<Rightarrow> 1 | DepositRequiresToken \<Rightarrow> 0"
  show "acyclic {(d, ref t) | d t. t \<in> set (tests g) \<and> d \<in> set (dependencies t)}"
  proof (rule acyclicI_order [where f = ?rank])
    fix a b
    assume "(a, b) \<in> {(d, ref t) | d t. t \<in> set (tests g) \<and> d \<in> set (dependencies t)}"
    then show "?rank b < ?rank a"
      by (auto simp: tests_list test_defs)
  qed
qed

theorem tests_topological_order_witness:
  "(\<exists>j < 3. ref (tests Map.empty ! j) = ContainsConfiguredAssetCode)
   \<and> TomlExists \<notin> ref ` set (tests Map.empty)"
proof -
  have len: "3 < length (tests Map.empty)"
    by (simp add: tests_list)
  have dep: "ContainsConfiguredAssetCode \<in> set (dependencies (tests Map.empty ! 3))"
    by (simp add: tests_list test_defs)
  from tests_topological_order [of Map.empty] len dep show ?thesis
    by blast
qed

text \<open>
  C4.  When the URL the test selects (\<open>TRANSFER_SERVER_SEP0024\<close>, or \<open>TRANSFER_SERVER\<close>
  when that one is falsy) is a non-empty string that does not start with \<open>https\<close>,
  \<open>run\<close> returns a Result whose failure is the kind \<open>NO_HTTPS\<close>, named \<open>no https\<close>,
  and whose list of network calls is empty.
\<close>

theorem hasTransferServerUrl_run_NO_HTTPS:
  assumes "get_prop (expects ctx ''tomlObj'') ''TRANSFER_SERVER_SEP0024'' = Inr a"
    and "get_prop (expects ctx ''tomlObj'') ''TRANSFER_SERVER'' = Inr b"
    and "(if truthy a then a else b) = String s"
    and "s \<noteq> []"
    and "\<not> startsWith s ''https''"
  shows "hasTransferServerUrl_run cfg ctx =
           (cfg,
            ctx\<lparr>provides := (provides ctx)(''transferServerUrl'' := String s)\<rparr>,
            Inr \<lparr>networkCalls = [],
                 failure = Some (NO_HTTPS\<lparr>message := Some ''The transfer server URL must use HTTPS''\<rparr>),
                 expected = Undefined, actual = Undefined\<rparr>)
         \<and> name NO_HTTPS = ''no https''"
  using assms
  by (auto simp: hasTransferServerUrl_run_def Let_def fail_with_def hasTransferServerUrl_def
      makeFailure_def new_result_def NO_HTTPS_def split: if_splits)

theorem hasTransferServerUrl_run_NO_HTTPS_witness:
  "hasTransferServerUrl_run \<lparr>assetCode = None\<rparr>
      \<lparr>expects = (\<lambda>_. Undefined)
         (''tomlObj'' := Object [(''TRANSFER_SERVER_SEP0024'', String ''http://x'')]),
       provides = (\<lambda>_. Undefined)\<rparr>
    = (\<lparr>assetCode = None\<rparr>,
       \<lparr>expects = (\<lambda>_. Undefined)
          (''tomlObj'' := Object [(''TRANSFER_SERVER_SEP0024'', String ''http://x'')]),
        provides = (\<lambda>_. Undefined)(''transferServerUrl'' := String ''http://x'')\<rparr>,
       Inr \<lparr>networkCalls = [],
            failure = Some (NO_HTTPS\<lparr>message := Some ''The transfer server URL must use HTTPS''\<rparr>),
            expected = Undefined, actual = Undefined\<rparr>)"
  using hasTransferServerUrl_run_NO_HTTPS
    [of "\<lparr>expects = (\<lambda>_. Undefined)
           (''tomlObj'' := Object [(''TRANSFER_SERVER_SEP0024'', String ''http://x'')]),
         provides = (\<lambda>_. Undefined)\<rparr>"
        "String ''http://x''" Undefined "''http://x''" "\<lparr>assetCode = None\<rparr>"]
  by (simp add: startsWith_def)

text \<open>
  C9.  \<open>run\<close> provides as \<open>transferServerUrl\<close> the value of \<open>TRANSFER_SERVER_SEP0024\<close>
  when it is truthy and the value of \<open>TRANSFER_SERVER\<close> otherwise, and it returns the
  failure \<open>TRANSFER_SERVER_NOT_FOUND\<close> exactly when both values are falsy (a missing
  field reads as \<open>undefined\<close>, which is falsy).
\<close>

theorem hasTransferServerUrl_run_provides:
  assumes "get_prop (expects ctx ''tomlObj'') ''TRANSFER_SERVER_SEP0024'' = Inr a"
    and "get_prop (expects ctx ''tomlObj'') ''TRANSFER_SERVER'' = Inr b"
  shows "provides (fst (snd (hasTransferServerUrl_run cfg ctx))) ''transferServerUrl''
           = (if truthy a then a else b)
         \<and> ((\<exists>r. snd (snd (hasTransferServerUrl_run cfg ctx)) = Inr r
                  \<and> failure r = Some (makeFailure TRANSFER_SERVER_NOT_FOUND Undefined))
              \<longleftrightarrow> (\<not> truthy a \<and> \<not> truthy b))"
  using assms
  by (auto simp: hasTransferServerUrl_run_def Let_def fail_with_def hasTransferServerUrl_def
      makeFailure_def new_result_def NO_HTTPS_def TRANSFER_SERVER_NOT_FOUND_def
      ENDS_WITH_SLASH_def split: if_splits js_value.splits)

theorem hasTransferServerUrl_run_provides_witness:
  "provides
     (fst (snd (hasTransferServerUrl_run \<lparr>assetCode = None\<rparr>
        \<lparr>expects = (\<lambda>_. Undefined)
           (''tomlObj'' := Object [(''TRANSFER_SERVER_SEP0024'', String []),
                                   (''TRANSFER_SERVER'', String ''https://a.b'')]),
         provides = (\<lambda>_. Undefined)\<rparr>)))
     ''transferServerUrl'' = String ''https://a.b''"
  using hasTransferServerUrl_run_provides
    [of "\<lparr>expects = (\<lambda>_. Undefined)
           (''tomlObj'' := Object [(''TRANSFER_SERVER_SEP0024'', String []),
                                   (''TRANSFER_SERVER'', String ''https://a.b'')]),
         provides = (\<lambda>_. Undefined)\<rparr>"
        "String []" "String ''https://a.b''" "\<lparr>assetCode = None\<rparr>"]
  by simp

lemma show_nat_last: "last (show_nat n) = digit_char (n mod 10)"
  by (subst show_nat.simps) simp

lemma digit_char_digit: "d < 10 \<Longrightarrow> digit_char d \<in> set ''0123456789''"
  unfolding digit_char_def by (rule nth_mem) simp

lemma show_nat_not_enabled: "show_nat i \<noteq> ''enabled''"
proof
  assume "show_nat i = ''enabled''"
  then have "last (show_nat i) = CHR ''d''"
    by simp
  with show_nat_last [of i] digit_char_digit [of "i mod 10"] show False
    by auto
qed

lemma find_index_enabled: "find (\<lambda>i. show_nat i = ''enabled'') ns = None"
  by (simp add: find_None_iff show_nat_not_enabled)

lemma discover_assetCode_find:
  assumes "\<forall>k \<in> set ks. \<forall>v. map_of kvs k = Some v \<longrightarrow> v \<noteq> Undefined \<and> v \<noteq> Null"
    and "set ks \<subseteq> fst ` set kvs"
  shows "discover_assetCode (Object kvs) ks cfg =
     Inr (case find (asset_enabled kvs) ks of
            None \<Rightarrow> cfg
          | Some k \<Rightarrow> cfg\<lparr>assetCode := Some k\<rparr>)"
  using assms
proof (induction ks)
  case Nil
  then show ?case by simp
next
  case (Cons k ks)
  from Cons.prems(2) obtain v where v: "map_of kvs k = Some v"
    by (metis list.set_intros(1) subsetD weak_map_of_SomeI image_iff prod.collapse
        map_of_eq_None_iff not_Some_eq)
  with Cons.prems(1) have nn: "v \<noteq> Undefined" "v \<noteq> Null"
    by auto
  show ?case
  proof (cases v)
    case (Object ps)
    with v Cons show ?thesis
      by (auto simp: asset_enabled_def split: option.splits)
  qed (use v nn Cons in \<open>auto simp: asset_enabled_def find_index_enabled\<close>)
qed

text \<open>
  C5 (as the code has it).  Let \<open>config.assetCode\<close> be absent and the \<open>deposit\<close> of the
  /info object be an object with no \<open>null\<close> or \<open>undefined\<close> entry.  If no asset is
  enabled, \<open>run\<close> returns the failure of the catalog's key \<open>NO_ASSET_CODES\<close> and leaves
  the configuration as it was.  Otherwise it writes the first enabled asset code, in
  enumeration order, to \<open>config.assetCode\<close>, and the Result has no failure unless that
  code is the empty string, for which the Result carries the same failure.
\<close>

theorem containsConfiguredAssetCode_run_discovers:
  assumes "assetCode cfg = None"
    and "get_prop (expects ctx ''infoObj'') ''deposit'' = Inr (Object kvs)"
    and "\<forall>v \<in> snd ` set kvs. v \<noteq> Undefined \<and> v \<noteq> Null"
  shows "\<exists>fm. failureModes (containsConfiguredAssetCode g) ''NO_ASSET_CODES'' = Some fm
           \<and> (g ''NO_ASSET_CODES'' = None \<longrightarrow> fm = NO_ASSET_CODES)
           \<and> containsConfiguredAssetCode_run g cfg ctx =
               (case find (asset_enabled kvs) (map fst kvs) of
                  None \<Rightarrow>
                    (cfg, ctx, Inr (new_result\<lparr>failure := Some (makeFailure fm Undefined)\<rparr>))
                | Some k \<Rightarrow>
                    (cfg\<lparr>assetCode := Some k\<rparr>, ctx,
                     if k = []
                     then Inr (new_result\<lparr>failure := Some (makeFailure fm Undefined)\<rparr>)
                     else Inr new_result))"
proof -
  have entries:
    "\<forall>k \<in> set (map fst kvs). \<forall>v. map_of kvs k = Some v \<longrightarrow> v \<noteq> Undefined \<and> v \<noteq> Null"
    using assms(3) by (auto dest!: map_of_SomeD)
  have loop: "discover_assetCode (Object kvs) (map fst kvs) cfg =
     Inr (case find (asset_enabled kvs) (map fst kvs) of
            None \<Rightarrow> cfg
          | Some k \<Rightarrow> cfg\<lparr>assetCode := Some k\<rparr>)"
    by (rule discover_assetCode_find [OF entries]) simp
  obtain fm where fm:
    "failureModes (containsConfiguredAssetCode g) ''NO_ASSET_CODES'' = Some fm"
    "g ''NO_ASSET_CODES'' = None \<longrightarrow> fm = NO_ASSET_CODES"
    by (cases "g ''NO_ASSET_CODES''") (auto simp: containsConfiguredAssetCode_def map_add_def)
  show ?thesis
    apply (rule exI [of _ fm])
    using fm assms(1,2) loop
    by (auto simp: containsConfiguredAssetCode_run_def Let_def no_assetCode_def fail_with_def
        split: option.splits)
qed

theorem containsConfiguredAssetCode_run_discovers_witness:
  "containsConfiguredAssetCode_run Map.empty \<lparr>assetCode = None\<rparr>
     \<lparr>expects = (\<lambda>_. Undefined)
        (''infoObj'' := Object [(''deposit'', Object
           [(''USD'', Object [(''enabled'', Boolean False)]),
            (''EUR'', Object [(''enabled'', Boolean True)])])]),
      provides = (\<lambda>_. Undefined)\<rparr>
   = (\<lparr>assetCode = Some ''EUR''\<rparr>,
      \<lparr>expects = (\<lambda>_. Undefined)
        (''infoObj'' := Object [(''deposit'', Object
           [(''USD'', Object [(''enabled'', Boolean False)]),
            (''EUR'', Object [(''enabled'', Boolean True)])])]),
       provides = (\<lambda>_. Undefined)\<rparr>,
      Inr new_result)"
  using containsConfiguredAssetCode_run_discovers
    [of "\<lparr>assetCode = None\<rparr>"
        "\<lparr>expects = (\<lambda>_. Undefined)
           (''infoObj'' := Object [(''deposit'', Object
              [(''USD'', Object [(''enabled'', Boolean False)]),
               (''EUR'', Object [(''enabled'', Boolean True)])])]),
          provides = (\<lambda>_. Undefined)\<rparr>"
        "[(''USD'', Object [(''enabled'', Boolean False)]),
          (''EUR'', Object [(''enabled'', Boolean True)])]"
        Map.empty]
  by (auto simp: asset_enabled_def)

text \<open>
  C5 as stated fails: for the /info object \<open>{"deposit": {"": {"enabled": true}}}\<close> and
  no configured asset code, the first enabled asset code is the empty string; \<open>run\<close>
  writes it to \<open>config.assetCode\<close> and still returns the failure \<open>NO_ASSET_CODES\<close>.
\<close>

theorem containsConfiguredAssetCode_run_empty_code:
  "find (asset_enabled [([], Object [(''enabled'', Boolean True)])])
        (map fst [([], Object [(''enabled'', Boolean True)])]) = Some []
   \<and> containsConfiguredAssetCode_run Map.empty \<lparr>assetCode = None\<rparr>
       \<lparr>expects = (\<lambda>_. Undefined)
          (''infoObj'' :=
             Object [(''deposit'', Object [([], Object [(''enabled'', Boolean True)])])]),
        provides = (\<lambda>_. Undefined)\<rparr>
     = (\<lparr>assetCode = Some []\<rparr>,
        \<lparr>expects = (\<lambda>_. Undefined)
          (''infoObj'' :=
             Object [(''deposit'', Object [([], Object [(''enabled'', Boolean True)])])]),
         provides = (\<lambda>_. Undefined)\<rparr>,
        Inr (new_result\<lparr>failure := Some (makeFailure NO_ASSET_CODES Undefined)\<rparr>))"
  by (simp add: asset_enabled_def containsConfiguredAssetCode_run_def Let_def no_assetCode_def
      fail_with_def containsConfiguredAssetCode_def)

lemma discover_assetCode_more:
  "discover_assetCode d ks cfg = Inr cfg' \<Longrightarrow> config.more cfg' = config.more cfg"
  by (induction ks) (auto split: sum.splits if_splits)

text \<open>
  C6 (as the code has it).  hasTransferServerUrl, isCompliantWithSchema and
  depositRequiresToken return the configuration they were given.
  containsConfiguredAssetCode leaves every field but \<open>assetCode\<close> as it was, and
  leaves \<open>assetCode\<close> as it was too unless it was absent or the empty string.
\<close>

theorem run_config_frame:
  "fst (hasTransferServerUrl_run cfg ctx) = cfg
   \<and> fst (isCompliantWithSchema_run ext g cfg ctx) = cfg
   \<and> fst (returned (depositRequiresToken_run ext cfg ctx)) = cfg
   \<and> config.more (fst (containsConfiguredAssetCode_run g cfg ctx)) = config.more cfg
   \<and> (\<not> no_assetCode cfg \<longrightarrow> fst (containsConfiguredAssetCode_run g cfg ctx) = cfg)"
proof (intro conjI)
  show "fst (hasTransferServerUrl_run cfg ctx) = cfg"
    by (simp add: hasTransferServerUrl_run_def Let_def split: sum.splits js_value.splits)
  show "fst (isCompliantWithSchema_run ext g cfg ctx) = cfg"
    by (simp add: isCompliantWithSchema_run_def Let_def split: prod.splits)
  show "fst (returned (depositRequiresToken_run ext cfg ctx)) = cfg"
    by (simp add: depositRequiresToken_run_def Let_def)
  show "config.more (fst (containsConfiguredAssetCode_run g cfg ctx)) = config.more cfg"
    by (auto simp: containsConfiguredAssetCode_run_def Let_def dest: discover_assetCode_more
        split: sum.splits)
  show "\<not> no_assetCode cfg \<longrightarrow> fst (containsConfiguredAssetCode_run g cfg ctx) = cfg"
    by (simp add: containsConfiguredAssetCode_run_def Let_def split: sum.splits)
qed

theorem run_config_frame_witness:
  "fst (containsConfiguredAssetCode_run Map.empty \<lparr>assetCode = Some ''USD''\<rparr>
     \<lparr>expects = (\<lambda>_. Undefined)
        (''infoObj'' :=
           Object [(''deposit'', Object [(''EUR'', Object [(''enabled'', Boolean True)])])]),
      provides = (\<lambda>_. Undefined)\<rparr>) = \<lparr>assetCode = Some ''USD''\<rparr>"
  using run_config_frame
    [of "\<lparr>assetCode = Some ''USD''\<rparr>"
        "\<lparr>expects = (\<lambda>_. Undefined)
           (''infoObj'' :=
              Object [(''deposit'', Object [(''EUR'', Object [(''enabled'', Boolean True)])])]),
          provides = (\<lambda>_. Undefined)\<rparr>"
        undefined Map.empty]
  by (simp add: no_assetCode_def)

text \<open>
  C6 as stated fails: a configuration whose \<open>assetCode\<close> is present, as the empty
  string, is overwritten with the first enabled asset code.
\<close>

theorem run_config_overwrites_empty_code:
  "assetCode \<lparr>assetCode = Some []\<rparr> \<noteq> None
   \<and> fst (containsConfiguredAssetCode_run Map.empty \<lparr>assetCode = Some []\<rparr>
       \<lparr>expects = (\<lambda>_. Undefined)
          (''infoObj'' :=
             Object [(''deposit'', Object [(''USD'', Object [(''enabled'', Boolean True)])])]),
        provides = (\<lambda>_. Undefined)\<rparr>) = \<lparr>assetCode = Some ''USD''\<rparr>"
  by (simp add: containsConfiguredAssetCode_run_def Let_def no_assetCode_def)

text \<open>
  C2 (what the code does).  Whatever the request helper does on the reply, the Result
  that \<open>depositRequiresToken.run\<close> resolves to has no failure: it is the Result as it
  was handed to the helper, holding the one network call, and the helper's writes are
  those of a call that nothing awaits.
\<close>

theorem depositRequiresToken_run_does_not_await:
  "\<exists>r call.
     snd (snd (returned (depositRequiresToken_run ext cfg ctx))) = Inr r
     \<and> failure r = None
     \<and> networkCalls r = [call]
     \<and> floating (depositRequiresToken_run ext cfg ctx) = makeRequest ext call 403 r None"
  by (simp add: depositRequiresToken_run_def Let_def new_result_def)

section \<open>Properties of the console reporter\<close>

lemma count_suitesPassed_filter:
  "count_suitesPassed ss n = n + int (length (filter (\<lambda>s. failed s = 0) ss))"
  by (induction ss arbitrary: n) auto

lemma show_int_nat: "show_int (int n) = show_nat n"
  by (simp add: show_int_def)

lemma filter_failed_split:
  "length (filter (\<lambda>s. failed s = 0) ss) + length (filter (\<lambda>s. 0 < failed s) ss) = length ss"
  by (induction ss) auto

text \<open>
  C8.  When the stats carry suite stats, the first line printed counts as passed the
  suites whose \<open>failed\<close> counter is zero and as failed the suites whose \<open>failed\<close>
  counter is positive (at least one failed run was counted); the number reported as
  failed is the number of suites minus the number counted as passed.  Either part of
  the line is left out when its number is zero.
\<close>

theorem printStats_suites_line:
  assumes "suiteStats st = Some ss"
  shows "let np = length (filter (\<lambda>s. failed s = 0) ss);
             nf = length (filter (\<lambda>s. 0 < failed s) ss)
         in hd (printStats c toFixed3 st startTime endTime) =
              Log (''Test Suites: ''
                   @ (if nf \<noteq> 0 then red c (show_nat nf @ '' failed'') @ '', '' else [])
                   @ (if np \<noteq> 0 then green c (show_nat np @ '' passed'') @ '', '' else [])
                   @ show_nat (length ss) @ '' total'')
            \<and> nf = length ss - np"
proof -
  define np where "np = length (filter (\<lambda>s. failed s = 0) ss)"
  define nf where "nf = length (filter (\<lambda>s. 0 < failed s) ss)"
  have n_eq: "length ss = np + nf"
    unfolding np_def nf_def by (simp add: filter_failed_split)
  have cnt: "count_suitesPassed ss 0 = int np"
    unfolding np_def by (simp add: count_suitesPassed_filter)
  have line: "hd (printStats c toFixed3 st startTime endTime) =
              Log (''Test Suites: ''
                   @ (if nf \<noteq> 0 then red c (show_nat nf @ '' failed'') @ '', '' else [])
                   @ (if np \<noteq> 0 then green c (show_nat np @ '' passed'') @ '', '' else [])
                   @ show_nat (np + nf) @ '' total'')"
    using assms
    by (simp add: printStats_def printColoredTextStats_def Let_def cnt n_eq show_int_nat)
  from line n_eq show ?thesis
    unfolding Let_def np_def [symmetric] nf_def [symmetric] by simp
qed

theorem printStats_suites_line_witness:
  "hd (printStats
         \<lparr>red = (\<lambda>s. s), green = (\<lambda>s. s), bold = (\<lambda>s. s), red_bold = (\<lambda>s. s),
          green_bold = (\<lambda>s. s), symbols_cross = ''x'', symbols_check = ''v'',
          symbols_pointer = ''>''\<rparr>
         (\<lambda>ms. ''0.000'')
         \<lparr>total = 5, passed = 3, failed = 2,
          suiteStats = Some [\<lparr>total = 2, passed = 2, failed = 0\<rparr>,
                             \<lparr>total = 3, passed = 1, failed = 2\<rparr>,
                             \<lparr>total = 0, passed = 0, failed = 0\<rparr>]\<rparr>
         0 0)
   = Log ''Test Suites: 1 failed, 2 passed, 3 total''"
  using printStats_suites_line
    [of "\<lparr>total = 5, passed = 3, failed = 2,
          suiteStats = Some [\<lparr>total = 2, passed = 2, failed = 0\<rparr>,
                             \<lparr>total = 3, passed = 1, failed = 2\<rparr>,
                             \<lparr>total = 0, passed = 0, failed = 0\<rparr>]\<rparr>"
        "[\<lparr>total = 2, passed = 2, failed = 0\<rparr>,
          \<lparr>total = 3, passed = 1, failed = 2\<rparr>,
          \<lparr>total = 0, passed = 0, failed = 0\<rparr>]"
        "\<lparr>red = (\<lambda>s. s), green = (\<lambda>s. s), bold = (\<lambda>s. s), red_bold = (\<lambda>s. s),
          green_bold = (\<lambda>s. s), symbols_cross = ''x'', symbols_check = ''v'',
          symbols_pointer = ''>''\<rparr>"
        "\<lambda>ms. ''0.000''" 0 0]
  by (simp add: show_nat.simps digit_char_def)

text \<open>
  C10.  For a failed test run the reporter prints the Expected and the Received line,
  between the line of the failure's message and the end of the description group, when
  \<open>result.expected\<close> and \<open>result.actual\<close> are both truthy, and neither line
  otherwise.  The effects of the call are exactly the ten that open the report of the
  failure, these two lines or none, the end of the description group, and the part for
  the network calls; with \<open>verbose\<close> off that part is the end of the result group and
  nothing else.
\<close>

theorem printTestRun_expected_received:
  assumes "failure (result tr) = Some f"
  shows "fst (printTestRun c tr verbose) =
      [Log (red_bold c (header_text c tr)),
       Group,
       Log [],
       Log (bold c (''Failure Type:'' @ [CHR 0x0A])),
       Group,
       Log (name f @ [CHR 0x0A]),
       GroupEnd,
       Log (bold c (''Description:'' @ [CHR 0x0A])),
       Group,
       Log (plus_newline (message f))]
      @ (if truthy (expected (result tr)) \<and> truthy (actual (result tr))
         then [Log (''Expected: '' @ to_string (expected (result tr))),
               Log (''Received: '' @ [CHR 0x27] @ to_string (actual (result tr))
                    @ [CHR 0x27, CHR 0x0A])]
         else [])
      @ [GroupEnd]
      @ (if verbose \<and> networkCalls (result tr) \<noteq> []
         then Log (bold c (''Network Calls:'' @ [CHR 0x0A]))
              # fst (print_networkCalls (networkCalls (result tr)))
              @ (case snd (print_networkCalls (networkCalls (result tr))) of
                   Inl e \<Rightarrow> []
                 | Inr u \<Rightarrow> [GroupEnd])
         else [GroupEnd])
    \<and> (\<not> verbose \<or> networkCalls (result tr) = [] \<longrightarrow>
          snd (printTestRun c tr verbose) = Inr ())"
  using assms
  by (simp add: printTestRun_def printColoredTextTestRun_def Let_def io_then_def io_bind_def
      emit_def split: prod.splits sum.splits)

theorem printTestRun_expected_received_witness:
  "printTestRun
     \<lparr>red = (\<lambda>s. s), green = (\<lambda>s. s), bold = (\<lambda>s. s), red_bold = (\<lambda>s. s),
      green_bold = (\<lambda>s. s), symbols_cross = ''x'', symbols_check = ''v'',
      symbols_pointer = ''>''\<rparr>
     \<lparr>test = hasTransferServerUrl, suite = None,
      result = \<lparr>networkCalls = [], failure = Some (makeFailure NO_HTTPS Undefined),
                expected = Number 403, actual = Array [Number 200, String ''OK'']\<rparr>\<rparr>
     False
   = ([Log ''x has a valid transfer server URL'',
       Group,
       Log [],
       Log (''Failure Type:'' @ [CHR 0x0A]),
       Group,
       Log (''no https'' @ [CHR 0x0A]),
       GroupEnd,
       Log (''Description:'' @ [CHR 0x0A]),
       Group,
       Log (''The transfer server URL must use HTTPS'' @ [CHR 0x0A]),
       Log ''Expected: 403'',
       Log (''Received: '' @ [CHR 0x27] @ ''200,OK'' @ [CHR 0x27, CHR 0x0A]),
       GroupEnd,
       GroupEnd], Inr ())
   \<and> printTestRun
     \<lparr>red = (\<lambda>s. s), green = (\<lambda>s. s), bold = (\<lambda>s. s), red_bold = (\<lambda>s. s),
      green_bold = (\<lambda>s. s), symbols_cross = ''x'', symbols_check = ''v'',
      symbols_pointer = ''>''\<rparr>
     \<lparr>test = hasTransferServerUrl, suite = None,
      result = \<lparr>networkCalls = [], failure = Some (makeFailure NO_HTTPS Undefined),
                expected = Number 403, actual = Undefined\<rparr>\<rparr>
     False
   = ([Log ''x has a valid transfer server URL'',
       Group,
       Log [],
       Log (''Failure Type:'' @ [CHR 0x0A]),
       Group,
       Log (''no https'' @ [CHR 0x0A]),
       GroupEnd,
       Log (''Description:'' @ [CHR 0x0A]),
       Group,
       Log (''The transfer server URL must use HTTPS'' @ [CHR 0x0A]),
       GroupEnd,
       GroupEnd], Inr ())"
  using
    printTestRun_expected_received
      [of "\<lparr>test = hasTransferServerUrl, suite = None,
            result = \<lparr>networkCalls = [], failure = Some (makeFailure NO_HTTPS Undefined),
                      expected = Number 403, actual = Array [Number 200, String ''OK'']\<rparr>\<rparr>"
          "makeFailure NO_HTTPS Undefined"
          "\<lparr>red = (\<lambda>s. s), green = (\<lambda>s. s), bold = (\<lambda>s. s), red_bold = (\<lambda>s. s),
            green_bold = (\<lambda>s. s), symbols_cross = ''x'', symbols_check = ''v'',
            symbols_pointer = ''>''\<rparr>"
          False]
    printTestRun_expected_received
      [of "\<lparr>test = hasTransferServerUrl, suite = None,
            result = \<lparr>networkCalls = [], failure = Some (makeFailure NO_HTTPS Undefined),
                      expected = Number 403, actual = Undefined\<rparr>\<rparr>"
          "makeFailure NO_HTTPS Undefined"
          "\<lparr>red = (\<lambda>s. s), green = (\<lambda>s. s), bold = (\<lambda>s. s), red_bold = (\<lambda>s. s),
            green_bold = (\<lambda>s. s), symbols_cross = ''x'', symbols_check = ''v'',
            symbols_pointer = ''>''\<rparr>"
          False]
  by (simp add: prod_eq_iff show_int_def show_nat.simps digit_char_def header_text_def
      plus_newline_def makeFailure_def NO_HTTPS_def hasTransferServerUrl_def)



















end
